theory Spec2Isabelle
  imports Main
begin

section \<open>Context strategy factory (completions/context/context-strategy.ts)\<close>

text \<open>
  The union type \<open>ContextStrategy\<close> of the source, one constructor per string literal
  (\<open>'none'\<close> is written \<open>NoneStrategy\<close>).
\<close>

datatype ContextStrategy =
    LspLight
  | Bfg
  | BfgMixed
  | JaccardSimilarity
  | NewJaccardSimilarity
  | Tsc
  | TscMixed
  | NoneStrategy
  | RecentEdits
  | RecentEdits1m
  | RecentEdits5m
  | RecentEditsMixed
  | RecentCopy

text \<open>
  The retriever objects the constructor creates. The classes themselves live outside the
  modelled file; an object is represented by its class and constructor arguments. The
  retrievers handed in from outside (the result of \<open>createBfgRetriever()\<close> and of
  \<open>loadTscRetriever()\<close>) are arbitrary values of this type.
\<close>

datatype ContextRetriever =
    RecentEditsRetriever nat
  | JaccardSimilarityRetriever
  | LspLightRetriever
  | RecentCopyRetriever nat nat
  | TscRetriever
  | BfgRetriever

record DefaultContextStrategyFactory =
  contextStrategy :: ContextStrategy
  localRetriever :: "ContextRetriever option"
  graphRetriever :: "ContextRetriever option"
  disposables :: "ContextRetriever list"

text \<open>
  The constructor. \<open>createBfgRetriever\<close> is the optional callback of the source, given
  here as the retriever it would create (\<open>None\<close> when no callback is passed);
  \<open>loadTscRetriever\<close> is the result of the call \<open>loadTscRetriever()\<close>, which may be
  \<open>undefined\<close>. A strategy without a \<open>case\<close> in the source's switch falls through and
  leaves both fields \<open>undefined\<close>.
\<close>

definition emptyFactory :: "ContextStrategy \<Rightarrow> DefaultContextStrategyFactory" where
  "emptyFactory s =
     \<lparr>contextStrategy = s, localRetriever = None, graphRetriever = None, disposables = []\<rparr>"

fun newDefaultContextStrategyFactory ::
  "ContextStrategy \<Rightarrow> ContextRetriever option \<Rightarrow> ContextRetriever option
     \<Rightarrow> DefaultContextStrategyFactory" where
  "newDefaultContextStrategyFactory NoneStrategy createBfgRetriever loadTscRetriever =
     emptyFactory NoneStrategy"
| "newDefaultContextStrategyFactory RecentEdits createBfgRetriever loadTscRetriever =
     (emptyFactory RecentEdits)
       \<lparr>localRetriever := Some (RecentEditsRetriever (60 * 1000)),
        disposables := [RecentEditsRetriever (60 * 1000)]\<rparr>"
| "newDefaultContextStrategyFactory RecentEdits1m createBfgRetriever loadTscRetriever =
     (emptyFactory RecentEdits1m)
       \<lparr>localRetriever := Some (RecentEditsRetriever (60 * 1000)),
        disposables := [RecentEditsRetriever (60 * 1000)]\<rparr>"
| "newDefaultContextStrategyFactory RecentEdits5m createBfgRetriever loadTscRetriever =
     (emptyFactory RecentEdits5m)
       \<lparr>localRetriever := Some (RecentEditsRetriever (60 * 5 * 1000)),
        disposables := [RecentEditsRetriever (60 * 5 * 1000)]\<rparr>"
| "newDefaultContextStrategyFactory RecentEditsMixed createBfgRetriever loadTscRetriever =
     (emptyFactory RecentEditsMixed)
       \<lparr>localRetriever := Some (RecentEditsRetriever (60 * 1000)),
        graphRetriever := Some JaccardSimilarityRetriever,
        disposables := [RecentEditsRetriever (60 * 1000), JaccardSimilarityRetriever]\<rparr>"
| "newDefaultContextStrategyFactory TscMixed createBfgRetriever loadTscRetriever =
     (emptyFactory TscMixed)
       \<lparr>localRetriever := Some JaccardSimilarityRetriever,
        graphRetriever := loadTscRetriever,
        disposables := JaccardSimilarityRetriever #
          (case loadTscRetriever of None \<Rightarrow> [] | Some g \<Rightarrow> [g])\<rparr>"
| "newDefaultContextStrategyFactory Tsc createBfgRetriever loadTscRetriever =
     (emptyFactory Tsc)
       \<lparr>graphRetriever := loadTscRetriever,
        disposables := (case loadTscRetriever of None \<Rightarrow> [] | Some g \<Rightarrow> [g])\<rparr>"
| "newDefaultContextStrategyFactory BfgMixed createBfgRetriever loadTscRetriever =
     (emptyFactory BfgMixed)
       \<lparr>localRetriever := Some JaccardSimilarityRetriever,
        graphRetriever := createBfgRetriever,
        disposables := JaccardSimilarityRetriever #
          (case createBfgRetriever of None \<Rightarrow> [] | Some g \<Rightarrow> [g])\<rparr>"
| "newDefaultContextStrategyFactory Bfg createBfgRetriever loadTscRetriever =
     (emptyFactory Bfg)
       \<lparr>localRetriever := Some JaccardSimilarityRetriever,
        graphRetriever := createBfgRetriever,
        disposables := JaccardSimilarityRetriever #
          (case createBfgRetriever of None \<Rightarrow> [] | Some g \<Rightarrow> [g])\<rparr>"
| "newDefaultContextStrategyFactory LspLight createBfgRetriever loadTscRetriever =
     (emptyFactory LspLight)
       \<lparr>localRetriever := Some JaccardSimilarityRetriever,
        graphRetriever := Some LspLightRetriever,
        disposables := [JaccardSimilarityRetriever, LspLightRetriever]\<rparr>"
| "newDefaultContextStrategyFactory RecentCopy createBfgRetriever loadTscRetriever =
     (emptyFactory RecentCopy)
       \<lparr>localRetriever := Some (RecentCopyRetriever (60 * 1000) 100),
        disposables := [RecentCopyRetriever (60 * 1000) 100]\<rparr>"
| "newDefaultContextStrategyFactory JaccardSimilarity createBfgRetriever loadTscRetriever =
     (emptyFactory JaccardSimilarity)
       \<lparr>localRetriever := Some JaccardSimilarityRetriever,
        disposables := [JaccardSimilarityRetriever]\<rparr>"
| "newDefaultContextStrategyFactory NewJaccardSimilarity createBfgRetriever loadTscRetriever =
     emptyFactory NewJaccardSimilarity"

text \<open>
  \<open>this.graphRetriever?.isSupportedForLanguageId(document.languageId)\<close>: the optional
  chain is \<open>undefined\<close> (falsy) when there is no graph retriever. The method
  \<open>isSupportedForLanguageId\<close> of each retriever class is a parameter. The result is
  the graph retriever when the test is truthy, and \<open>None\<close> otherwise.
\<close>

definition graphSupported ::
  "(ContextRetriever \<Rightarrow> string \<Rightarrow> bool) \<Rightarrow> DefaultContextStrategyFactory \<Rightarrow> string
     \<Rightarrow> ContextRetriever option" where
  "graphSupported isSupportedForLanguageId f languageId =
     (case graphRetriever f of
        None \<Rightarrow> None
      | Some g \<Rightarrow> if isSupportedForLanguageId g languageId then Some g else None)"

text \<open>The two guarded \<open>retrievers.push(...)\<close> statements of \<open>getStrategy\<close>.\<close>

definition pushGraph ::
  "(ContextRetriever \<Rightarrow> string \<Rightarrow> bool) \<Rightarrow> DefaultContextStrategyFactory \<Rightarrow> string
     \<Rightarrow> ContextRetriever list \<Rightarrow> ContextRetriever list" where
  "pushGraph isSupportedForLanguageId f languageId retrievers =
     (case graphSupported isSupportedForLanguageId f languageId of
        Some g \<Rightarrow> retrievers @ [g]
      | None \<Rightarrow> retrievers)"

definition pushLocal ::
  "DefaultContextStrategyFactory \<Rightarrow> ContextRetriever list \<Rightarrow> ContextRetriever list" where
  "pushLocal f retrievers =
     (case localRetriever f of None \<Rightarrow> retrievers | Some l \<Rightarrow> retrievers @ [l])"

text \<open>
  \<open>getStrategy(document)\<close>; only \<open>document.languageId\<close> is read. The result is the pair
  \<open>(name, retrievers)\<close>. \<open>'new-jaccard-similarity'\<close> has no \<open>case\<close> in the switch.
\<close>

fun getStrategyRetrievers ::
  "(ContextRetriever \<Rightarrow> string \<Rightarrow> bool) \<Rightarrow> DefaultContextStrategyFactory \<Rightarrow> string
     \<Rightarrow> ContextStrategy \<Rightarrow> ContextRetriever list" where
  "getStrategyRetrievers supports f languageId NoneStrategy = []"
| "getStrategyRetrievers supports f languageId LspLight =
     pushLocal f (pushGraph supports f languageId [])"
| "getStrategyRetrievers supports f languageId Bfg =
     (case graphSupported supports f languageId of
        Some g \<Rightarrow> [g]
      | None \<Rightarrow> pushLocal f [])"
| "getStrategyRetrievers supports f languageId Tsc =
     pushLocal f (pushGraph supports f languageId [])"
| "getStrategyRetrievers supports f languageId TscMixed =
     pushLocal f (pushGraph supports f languageId [])"
| "getStrategyRetrievers supports f languageId BfgMixed =
     pushLocal f (pushGraph supports f languageId [])"
| "getStrategyRetrievers supports f languageId JaccardSimilarity = pushLocal f []"
| "getStrategyRetrievers supports f languageId RecentEdits = pushLocal f []"
| "getStrategyRetrievers supports f languageId RecentEdits1m = pushLocal f []"
| "getStrategyRetrievers supports f languageId RecentEdits5m = pushLocal f []"
| "getStrategyRetrievers supports f languageId RecentCopy = pushLocal f []"
| "getStrategyRetrievers supports f languageId RecentEditsMixed =
     pushGraph supports f languageId (pushLocal f [])"
| "getStrategyRetrievers supports f languageId NewJaccardSimilarity = []"

definition getStrategy ::
  "(ContextRetriever \<Rightarrow> string \<Rightarrow> bool) \<Rightarrow> DefaultContextStrategyFactory \<Rightarrow> string
     \<Rightarrow> ContextStrategy \<times> ContextRetriever list" where
  "getStrategy isSupportedForLanguageId f languageId =
     (contextStrategy f,
      getStrategyRetrievers isSupportedForLanguageId f languageId (contextStrategy f))"

section \<open>Registration of the completion provider (create-inline-completion-item-provider.ts)\<close>

text \<open>Values thrown or rejected: \<open>new Error(message)\<close> and the runtime's \<open>TypeError\<close>.\<close>

datatype error = Error string | TypeError string

text \<open>
  A \<open>vscode.DocumentFilter\<close>: every field is optional. The source builds
  \<open>{ language, scheme: 'file' }\<close> and \<open>{ notebookType: '*' }\<close>.
\<close>

record DocumentFilter =
  language :: "string option"
  scheme :: "string option"
  notebookType :: "string option"

definition notebookFilter :: DocumentFilter where
  "notebookFilter = \<lparr>language = None, scheme = None, notebookType = Some ''*''\<rparr>"

definition DISABLED_LANGUAGES :: "string set" where
  "DISABLED_LANGUAGES = {''scminput''}"

text \<open>
  \<open>autocompleteLanguages\<close> is a \<open>Record<string, boolean>\<close>; its own entries are a map
  from language identifiers to booleans. Reading a property of such an object gives a
  boolean for an own entry; for a name without an own entry that every object inherits
  from \<open>Object.prototype\<close> it gives the inherited function or object; and
  \<open>undefined\<close> otherwise.
\<close>

datatype jsValue = JSBoolean bool | JSInherited string | JSUndefined

text \<open>The property names of \<open>Object.prototype\<close> (ECMAScript, with its Annex B).\<close>

definition objectPrototypeNames :: "string set" where
  "objectPrototypeNames =
     {''constructor'', ''hasOwnProperty'', ''isPrototypeOf'', ''propertyIsEnumerable'',
      ''toLocaleString'', ''toString'', ''valueOf'', ''__proto__'',
      ''__defineGetter__'', ''__defineSetter__'', ''__lookupGetter__'', ''__lookupSetter__''}"

text \<open>
  \<open>key in object\<close> and \<open>object[key]\<close> for an object with the given own entries: an
  own entry shadows an inherited name.
\<close>

definition inObject :: "(string \<rightharpoonup> bool) \<Rightarrow> string \<Rightarrow> bool" where
  "inObject own key =
     (case own key of
        Some b \<Rightarrow> True
      | None \<Rightarrow> key \<in> objectPrototypeNames)"

definition getProperty :: "(string \<rightharpoonup> bool) \<Rightarrow> string \<Rightarrow> jsValue" where
  "getProperty own key =
     (case own key of
        Some b \<Rightarrow> JSBoolean b
      | None \<Rightarrow> if key \<in> objectPrototypeNames then JSInherited key else JSUndefined)"

text \<open>
  Truthiness, as the conditional \<open>enabled ? ... : ...\<close> tests it: \<open>false\<close> and
  \<open>undefined\<close> are falsy, functions and objects are truthy.
\<close>

fun truthy :: "jsValue \<Rightarrow> bool" where
  "truthy (JSBoolean b) = b"
| "truthy (JSInherited name) = True"
| "truthy JSUndefined = False"

text \<open>
  The destructuring
  \<open>const { '*': isEnabledForAll, ...perLanguageConfig } = autocompleteLanguages\<close>
  reads the property \<open>'*'\<close> and copies every other own entry into a new object.
\<close>

definition isEnabledForAll :: "(string \<rightharpoonup> bool) \<Rightarrow> jsValue" where
  "isEnabledForAll autocompleteLanguages = getProperty autocompleteLanguages ''*''"

definition perLanguageConfig :: "(string \<rightharpoonup> bool) \<Rightarrow> (string \<rightharpoonup> bool)" where
  "perLanguageConfig autocompleteLanguages = autocompleteLanguages(''*'' := None)"

text \<open>
  The constant \<open>enabled\<close> of the callback:
  \<open>!DISABLED_LANGUAGES.has(language) && language in perLanguageConfig
     ? perLanguageConfig[language] : isEnabledForAll\<close>.
  The conjunction binds tighter than the conditional.
\<close>

definition enabled :: "(string \<rightharpoonup> bool) \<Rightarrow> string \<Rightarrow> jsValue" where
  "enabled autocompleteLanguages l =
     (if l \<notin> DISABLED_LANGUAGES \<and> inObject (perLanguageConfig autocompleteLanguages) l
      then getProperty (perLanguageConfig autocompleteLanguages) l
      else isEnabledForAll autocompleteLanguages)"

text \<open>
  \<open>getInlineCompletionItemProviderFilters\<close>; \<open>languageIds\<close> is the array that
  \<open>vscode.languages.getLanguages()\<close> resolves to. \<open>flatMap\<close> concatenates the arrays
  the callback returns.
\<close>

definition getInlineCompletionItemProviderFilters ::
  "(string \<rightharpoonup> bool) \<Rightarrow> string list \<Rightarrow> DocumentFilter list" where
  "getInlineCompletionItemProviderFilters autocompleteLanguages languageIds =
     concat (map (\<lambda>l. if truthy (enabled autocompleteLanguages l)
                        then [\<lparr>language = Some l, scheme = Some ''file'', notebookType = None\<rparr>]
                        else [])
                 languageIds)"


text \<open>The fields of the resolved configuration that the registration reads.\<close>

record Configuration =
  isRunningInsideAgent :: bool
  autocompleteLanguages :: "string \<rightharpoonup> bool"
  autocompleteFirstCompletionTimeout :: nat
  autocompleteCompleteSuggestWidgetSelection :: bool
  autocompleteFormatOnAccept :: bool
  autocompleteDisableInsideComments :: bool

text \<open>
  The options object passed to \<open>new InlineCompletionItemProvider(...)\<close>; \<open>statusBar\<close>
  and \<open>createBfgRetriever\<close> are handed through unchanged and left out.
\<close>

record 'p InlineCompletionItemProviderOptions =
  triggerDelay :: nat
  provider :: 'p
  firstCompletionTimeout :: nat
  completeSuggestWidgetSelection :: bool
  formatOnAccept :: bool
  disableInsideComments :: bool
  optIsRunningInsideAgent :: bool

datatype 'p CompletionItemProvider =
    NoopCompletionItemProvider
  | InlineCompletionItemProvider "'p InlineCompletionItemProviderOptions"

text \<open>The selector of \<open>registerInlineCompletionItemProvider\<close>: the string \<open>'*'\<close> or filters.\<close>

datatype DocumentSelector = AllDocuments | Filters "DocumentFilter list"

datatype 'p Disposable =
    RegisteredCommand string
  | RegisteredInlineCompletionItemProvider DocumentSelector "'p CompletionItemProvider"
  | AutocompleteTraceView
  | CompletionsProviderItself "'p CompletionItemProvider"

text \<open>
  What one emission of \<open>[resolvedConfig, authStatus]\<close> leads to: the observable
  \<open>NEVER\<close>, or a list of registered resources; a \<open>throw\<close> is the \<open>Inl\<close> of the result.
\<close>

datatype 'p Registration = NEVER | Resources "'p Disposable list"

definition providerConfigNullMessage :: string where
  "providerConfigNullMessage =
     ''Can't register completion provider because `providerConfig` evaluated to `null`. '' @
     ''To fix this problem, debug why createProvider returned null instead of ProviderConfig. '' @
     ''To further debug this problem, here is the configuration:''"

text \<open>
  \<open>createInlineCompletionItemProvider\<close> for one emission. \<open>authenticated\<close> is
  \<open>authStatus.authenticated\<close>; \<open>languageIds\<close> is what \<open>getLanguages()\<close> resolves to;
  \<open>createProvider\<close> is the value that the observable \<open>createProvider()\<close> emits
  (\<open>Provider | null\<close>); \<open>triggerDelaySetting\<close> is the setting
  \<open>cody.autocomplete.triggerDelay\<close>, \<open>None\<close> when unset. The thrown message ends with a
  JSON dump of the configuration, which is not part of the model.
\<close>

definition createInlineCompletionItemProvider ::
  "Configuration \<Rightarrow> bool \<Rightarrow> string list \<Rightarrow> 'p option \<Rightarrow> nat option
     \<Rightarrow> error + 'p Registration" where
  "createInlineCompletionItemProvider config authenticated languageIds createProvider
       triggerDelaySetting =
     (if \<not> authenticated then
        (if isRunningInsideAgent config
         then Inr (Resources
                [RegisteredInlineCompletionItemProvider AllDocuments NoopCompletionItemProvider])
         else Inr NEVER)
      else
        (let documentFilters =
               getInlineCompletionItemProviderFilters (autocompleteLanguages config) languageIds
         in case createProvider of
              Some p \<Rightarrow>
                (let completionsProvider = InlineCompletionItemProvider
                       \<lparr>triggerDelay = (case triggerDelaySetting of None \<Rightarrow> 0 | Some d \<Rightarrow> d),
                        provider = p,
                        firstCompletionTimeout = autocompleteFirstCompletionTimeout config,
                        completeSuggestWidgetSelection =
                          autocompleteCompleteSuggestWidgetSelection config,
                        formatOnAccept = autocompleteFormatOnAccept config,
                        disableInsideComments = autocompleteDisableInsideComments config,
                        optIsRunningInsideAgent = isRunningInsideAgent config\<rparr>
                 in Inr (Resources
                      [RegisteredCommand ''cody.autocomplete.manual-trigger'',
                       RegisteredInlineCompletionItemProvider
                         (Filters (notebookFilter # documentFilters)) completionsProvider,
                       AutocompleteTraceView,
                       CompletionsProviderItself completionsProvider]))
            | None \<Rightarrow>
                (if isRunningInsideAgent config
                 then Inl (Error providerConfigNullMessage)
                 else Inr (Resources []))))"

section \<open>Multi-model comparison (create-multi-model-inline-completion-provider.ts)\<close>

record MultiModelCompletionsResults =
  resProvider :: string
  resModel :: string
  resContextStrategy :: string
  completion :: string

text \<open>A \<open>vscode.InlineCompletionItem\<close>, of which only \<open>insertText\<close> is read.\<close>

record InlineCompletionItem =
  insertText :: "string option"

text \<open>
  The source's \<open>providerConfig\<close>. The field \<open>completionsProvider\<close> holds what the
  provider object does when asked: the settled outcome of its
  \<open>provideInlineCompletionItems(document, position, context, token)\<close> for the active
  document and position, either a rejection (\<open>Inl\<close>) or the resolved value, which is
  \<open>null\<close>/\<open>undefined\<close> (\<open>None\<close>) or a list with its \<open>items\<close>.
\<close>

record providerConfig =
  providerName :: string
  modelName :: string
  cfgContextStrategy :: string
  completionsProvider :: "error + InlineCompletionItem list option"

text \<open>
  The expression \<open>result?.items[0].insertText?.toString() || ''\<close>: the chain is
  \<open>undefined\<close> for a missing \<open>result\<close> or a missing \<open>insertText\<close>; for an empty
  \<open>items\<close> array, \<open>items[0]\<close> is \<open>undefined\<close> and reading \<open>.insertText\<close> of it
  throws a \<open>TypeError\<close>.
\<close>

fun firstInsertText :: "InlineCompletionItem list option \<Rightarrow> error + string" where
  "firstInsertText None = Inr []"
| "firstInsertText (Some []) =
     Inl (TypeError ''Cannot read properties of undefined (reading 'insertText')'')"
| "firstInsertText (Some (item # _)) =
     Inr (case insertText item of None \<Rightarrow> [] | Some text \<Rightarrow> text)"

text \<open>\<open>manuallyGetCompletionItemsForProvider\<close>. The \<open>await\<close> rethrows a rejection.\<close>

definition manuallyGetCompletionItemsForProvider ::
  "providerConfig \<Rightarrow> error + MultiModelCompletionsResults" where
  "manuallyGetCompletionItemsForProvider config =
     (case completionsProvider config of
        Inl e \<Rightarrow> Inl e
      | Inr result \<Rightarrow>
          (case firstInsertText result of
             Inl e \<Rightarrow> Inl e
           | Inr c \<Rightarrow>
               Inr \<lparr>resProvider = providerName config,
                    resModel = modelName config,
                    resContextStrategy = cfgContextStrategy config,
                    completion = c\<rparr>))"

text \<open>
  \<open>Promise.all\<close> over settled branches, in the order of the array: it fulfils with
  all the values, in that order, when every branch fulfils, and rejects when some branch
  rejects. With several rejections the reason is that of the branch that rejects first
  in time; the model reports the first one in array order.
\<close>

fun promiseAll :: "(error + 'a) list \<Rightarrow> error + 'a list" where
  "promiseAll [] = Inr []"
| "promiseAll (Inl e # ps) = Inl e"
| "promiseAll (Inr v # ps) =
     (case promiseAll ps of Inl e \<Rightarrow> Inl e | Inr vs \<Rightarrow> Inr (v # vs))"

text \<open>One iteration of \<open>completionsOutput += `Model: ... `\<close>.\<close>

definition outputLine :: "MultiModelCompletionsResults \<Rightarrow> string" where
  "outputLine r =
     ''Model: '' @ resModel r @ [CHR 0x09] @ '' Context: '' @ resContextStrategy r @
     '' '' @ [CHR 0x0A] @ completion r @ [CHR 0x0A, CHR 0x0A]"

text \<open>
  \<open>triggerMultiModelAutocompletionsForComparison\<close>. \<open>activeEditor\<close> tells whether
  \<open>vscode.window.activeTextEditor\<close> is set. The result is the rejection of the async
  function (\<open>Inl\<close>), or what it passes to \<open>logDebug\<close>: \<open>None\<close> when it returns early
  without logging, \<open>Some output\<close> otherwise.
\<close>

definition triggerMultiModelAutocompletionsForComparison ::
  "bool \<Rightarrow> providerConfig list \<Rightarrow> error + string option" where
  "triggerMultiModelAutocompletionsForComparison activeEditor allCompletionsProvidersConfig =
     (if \<not> activeEditor then Inr None
      else
        (let allPromises = map manuallyGetCompletionItemsForProvider allCompletionsProvidersConfig
         in case promiseAll allPromises of
              Inl e \<Rightarrow> Inl e
            | Inr completions \<Rightarrow>
                Inr (Some (foldl (\<lambda>completionsOutput result. completionsOutput @ outputLine result)
                                 [] completions))))"

text \<open>Two provider configurations: one whose request is rejected, one that answers.\<close>

definition failingConfig :: providerConfig where
  "failingConfig =
     \<lparr>providerName = ''fireworks'', modelName = ''starcoder-hybrid'',
      cfgContextStrategy = ''jaccard-similarity'',
      completionsProvider = Inl (Error ''network error'')\<rparr>"

definition answeringConfig :: providerConfig where
  "answeringConfig =
     \<lparr>providerName = ''anthropic'', modelName = ''claude-instant-1.2'',
      cfgContextStrategy = ''bfg'',
      completionsProvider = Inr (Some [\<lparr>insertText = Some ''foo()''\<rparr>])\<rparr>"

text \<open>A configuration for the registration, inside or outside the agent.\<close>

definition agentConfig :: "bool \<Rightarrow> Configuration" where
  "agentConfig agent =
     \<lparr>isRunningInsideAgent = agent, autocompleteLanguages = [''*'' \<mapsto> True],
      autocompleteFirstCompletionTimeout = 3500,
      autocompleteCompleteSuggestWidgetSelection = True,
      autocompleteFormatOnAccept = True,
      autocompleteDisableInsideComments = False\<rparr>"

section \<open>Prompt context of the Ollama provider (completions/providers/experimental-ollama.ts)\<close>

text \<open>An \<open>AutocompleteContextSnippet\<close>: the file it comes from and its text.\<close>

record AutocompleteContextSnippet =
  snippetUri :: string
  content :: string

text \<open>The source's field \<open>context\<close> is written \<open>context'\<close>.\<close>

record OllamaPromptContext =
  snippets :: "AutocompleteContextSnippet list"
  context' :: string
  currentFileNameComment :: string
  isInfill :: bool
  uri :: string
  prefix :: string
  suffix :: string
  languageId :: string

text \<open>
  The part of \<open>GenerateCompletionsOptions\<close> that is read: \<open>options.document\<close>
  (\<open>languageId\<close>, \<open>uri\<close>) and the prefix and suffix of \<open>options.docContext\<close>.
\<close>

record GenerateCompletionsOptions =
  docLanguageId :: string
  docUri :: string
  docPrefix :: string
  docSuffix :: string

text \<open>
  Functions of other modules, taken as parameters: \<open>getLanguageConfig\<close> (here giving
  the \<open>commentStart\<close> of the language, if it has a configuration),
  \<open>PromptString.fromDisplayPath\<close>, \<open>getSuffixAfterFirstNewline\<close> and the model
  helper's \<open>getOllamaPrompt\<close>.
\<close>

record Helpers =
  getLanguageConfig :: "string \<Rightarrow> string option"
  fromDisplayPath :: "string \<Rightarrow> string"
  getSuffixAfterFirstNewline :: "string \<Rightarrow> string"
  getOllamaPrompt :: "OllamaPromptContext \<Rightarrow> string"

text \<open>\<open>String.prototype.split\<close> on one character and \<open>PromptString.join\<close>.\<close>

fun split :: "char \<Rightarrow> string \<Rightarrow> string list" where
  "split c [] = [[]]"
| "split c (x # xs) =
     (if x = c then [] # split c xs
      else (case split c xs of
              [] \<Rightarrow> [[x]]
            | w # ws \<Rightarrow> (x # w) # ws))"

fun join :: "string list \<Rightarrow> string \<Rightarrow> string" where
  "join [] sep = []"
| "join [x] sep = x"
| "join (x # y # ys) sep = x @ sep @ join (y # ys) sep"

definition fileNameLine :: "Helpers \<Rightarrow> string \<Rightarrow> string \<Rightarrow> string" where
  "fileNameLine h u commentStart =
     commentStart @ '' Path: '' @ fromDisplayPath h u @ [CHR 0x0A]"

text \<open>
  \<open>config?.commentStart || ps`// `\<close>: a missing configuration or comment start gives
  the default. A \<open>commentStart\<close> is a \<open>PromptString\<close> object and so truthy even when
  its text is empty; an empty one is kept.
\<close>

definition commentStartFor :: "Helpers \<Rightarrow> string \<Rightarrow> string" where
  "commentStartFor h l =
     (case getLanguageConfig h l of
        None \<Rightarrow> ''// ''
      | Some c \<Rightarrow> c)"

definition maxPromptChars :: nat where
  "maxPromptChars = 1234"

text \<open>
  The object literal \<open>prompt\<close> that \<open>createPromptContext\<close> builds before its loop, with
  the joined \<open>context\<close> of all snippets and an empty \<open>snippets\<close> list.
\<close>

definition initialPrompt ::
  "Helpers \<Rightarrow> GenerateCompletionsOptions \<Rightarrow> AutocompleteContextSnippet list \<Rightarrow> bool
     \<Rightarrow> OllamaPromptContext" where
  "initialPrompt h options snips infill =
     (let commentStart = commentStartFor h (docLanguageId options)
      in \<lparr>snippets = [],
          context' =
            join (map (\<lambda>snippet.
                         fileNameLine h (docUri options) commentStart @
                         join (map (\<lambda>line. commentStart @ '' '' @ line)
                                   (split (CHR 0x0A) (content snippet)))
                              [CHR 0x0A])
                      snips)
                 [CHR 0x0A, CHR 0x0A],
          currentFileNameComment = fileNameLine h (docUri options) commentStart,
          isInfill = infill,
          uri = docUri options,
          prefix = docPrefix options,
          suffix = getSuffixAfterFirstNewline h (docSuffix options),
          languageId = docLanguageId options\<rparr>)"

text \<open>
  The loop \<open>for (const snippet of snippets)\<close>: the prompt with the snippet appended is
  measured, and the loop stops (\<open>break\<close>) when it is longer than the limit. The length is
  the number of characters of the model's string.
\<close>

fun addSnippets ::
  "Helpers \<Rightarrow> nat \<Rightarrow> OllamaPromptContext \<Rightarrow> AutocompleteContextSnippet list
     \<Rightarrow> OllamaPromptContext" where
  "addSnippets h limit prompt [] = prompt"
| "addSnippets h limit prompt (snippet # rest) =
     (let extendedSnippets = snippets prompt @ [snippet];
          promptLengthWithSnippet =
            length (getOllamaPrompt h (prompt\<lparr>snippets := extendedSnippets\<rparr>))
      in if promptLengthWithSnippet > limit then prompt
         else addSnippets h limit (prompt\<lparr>snippets := extendedSnippets\<rparr>) rest)"

text \<open>
  \<open>createPromptContext\<close>; \<open>envOllamaContextSnippets\<close> is the value of
  \<open>process.env.OLLAMA_CONTEXT_SNIPPETS\<close>, truthy when set to a non-empty string.
\<close>

definition createPromptContext ::
  "Helpers \<Rightarrow> string option \<Rightarrow> GenerateCompletionsOptions
     \<Rightarrow> AutocompleteContextSnippet list \<Rightarrow> bool \<Rightarrow> OllamaPromptContext" where
  "createPromptContext h envOllamaContextSnippets options snips infill =
     (let prompt = initialPrompt h options snips infill
      in case envOllamaContextSnippets of
           None \<Rightarrow> prompt
         | Some v \<Rightarrow> if v = [] then prompt else addSnippets h maxPromptChars prompt snips)"

text \<open>
  Helpers for a run: the prompt is the context, the file name comment and the prefix, one
  after the other; paths are displayed as they are; the suffix is cut before its first
  line break; no language has a configuration.
\<close>

definition plainHelpers :: Helpers where
  "plainHelpers =
     \<lparr>getLanguageConfig = (\<lambda>l. None),
      fromDisplayPath = (\<lambda>u. u),
      getSuffixAfterFirstNewline = dropWhile (\<lambda>c. c \<noteq> CHR 0x0A),
      getOllamaPrompt = (\<lambda>p. context' p @ currentFileNameComment p @ prefix p)\<rparr>"

text \<open>The same, with the prompt made of the kept snippets and the prefix.\<close>

definition snippetHelpers :: Helpers where
  "snippetHelpers =
     plainHelpers\<lparr>getOllamaPrompt := (\<lambda>p. concat (map content (snippets p)) @ prefix p)\<rparr>"

definition longPrefixOptions :: GenerateCompletionsOptions where
  "longPrefixOptions =
     \<lparr>docLanguageId = ''typescript'', docUri = ''file:///a.ts'',
      docPrefix = replicate 2000 (CHR ''x''), docSuffix = []\<rparr>"

definition shortPrefixOptions :: GenerateCompletionsOptions where
  "shortPrefixOptions =
     \<lparr>docLanguageId = ''typescript'', docUri = ''file:///a.ts'',
      docPrefix = ''const a = '', docSuffix = []\<rparr>"

definition smallSnippet :: AutocompleteContextSnippet where
  "smallSnippet = \<lparr>snippetUri = ''file:///b.ts'', content = ''export const b = 1''\<rparr>"

definition largeSnippet :: AutocompleteContextSnippet where
  "largeSnippet = \<lparr>snippetUri = ''file:///c.ts'', content = replicate 1300 (CHR ''y'')\<rparr>"

section \<open>Artificial delay (completions/artificial-delay.ts)\<close>

text \<open>
  The module \<open>artificial-delay.ts\<close> is exercised by \<open>artificial-delay.test.ts\<close> but
  is not among the sources; its functions are modelled from section 4.4 of the
  specification. The scenarios of the test file are replayed on the model further down.
\<close>

record LatencyFeatureFlags =
  user :: bool

text \<open>
  Modelled from the spec: the \<open>DelayState\<close> kept per document URI, missing with
  \<open>artificial-delay.ts\<close>. It holds the URI's rejection counter and the time, in
  milliseconds, of the last call for the URI; baseline and user latency are computed at
  each call from the arguments and the counter.
\<close>

record DelayState =
  rejectionStreak :: nat
  lastCallAt :: int

type_synonym DelayMap = "string \<rightharpoonup> DelayState"

text \<open>
  Modelled from the spec: the baseline of \<open>getArtificialDelay\<close> (step 2), 1000 ms if
  the language is in the fixed low-performance set or the node type is \<open>comment\<close>, and 0
  otherwise. The set \<open>lowPerformanceLanguageIds\<close> is a parameter; the test file has
  \<open>css\<close> in it and \<open>typescript\<close> and \<open>go\<close> outside.
\<close>

definition baseline :: "string set \<Rightarrow> string \<Rightarrow> string option \<Rightarrow> nat" where
  "baseline lowPerformanceLanguageIds l nodeType =
     (if l \<in> lowPerformanceLanguageIds \<or> nodeType = Some ''comment'' then 1000 else 0)"

text \<open>
  Modelled from the spec: the rejection counter of a URI as a call at time \<open>now\<close> finds
  it, missing with \<open>artificial-delay.ts\<close>. A URI without state starts at zero, and the
  counter is back at zero once 5 minutes have passed since the last call for the URI (the
  test file resets after an idle time of exactly 5 minutes).
\<close>

definition rejectionCount :: "DelayMap \<Rightarrow> int \<Rightarrow> string \<Rightarrow> nat" where
  "rejectionCount s now u =
     (case s u of
        None \<Rightarrow> 0
      | Some d \<Rightarrow> if 5 * 60 * 1000 \<le> now - lastCallAt d then 0 else rejectionStreak d)"

text \<open>
  Modelled from the spec: the user latency of \<open>getArtificialDelay\<close> (step 3), 50 ms per
  rejected suggestion beyond the 5th consecutive rejection when the user-latency flag is
  enabled; \<open>n\<close> counts the rejections, the current call included.
\<close>

definition userLatency :: "LatencyFeatureFlags \<Rightarrow> nat \<Rightarrow> nat" where
  "userLatency flags n = (if user flags then 50 * (n - 5) else 0)"

text \<open>
  Modelled from the spec: \<open>getArtificialDelay(flags, uri, languageId, nodeType?)\<close> of
  section 4.4, missing with \<open>artificial-delay.ts\<close>. \<open>disableDelay\<close> is the
  disable-delay feature flag and \<open>now\<close> the clock. With the flag set the result is 0 and
  the state is bypassed; otherwise the call counts as one more rejection for the URI and
  returns baseline plus user latency, clamped to 1400 ms. The function returns the delay
  and the new state.
\<close>

definition getArtificialDelay ::
  "string set \<Rightarrow> LatencyFeatureFlags \<Rightarrow> bool \<Rightarrow> int \<Rightarrow> string \<Rightarrow> string \<Rightarrow> string option
     \<Rightarrow> DelayMap \<Rightarrow> nat \<times> DelayMap" where
  "getArtificialDelay lowPerformanceLanguageIds flags disableDelay now u l nodeType s =
     (if disableDelay then (0, s)
      else
        (let streak = Suc (rejectionCount s now u);
             total = min (baseline lowPerformanceLanguageIds l nodeType + userLatency flags streak)
                         1400
         in (total, s(u \<mapsto> \<lparr>rejectionStreak = streak, lastCallAt = now\<rparr>))))"

text \<open>
  Modelled from the spec: \<open>resetArtificialDelay()\<close>, missing with
  \<open>artificial-delay.ts\<close>; it zeroes the counters of all URIs.
\<close>

definition resetArtificialDelay :: "DelayMap \<Rightarrow> DelayMap" where
  "resetArtificialDelay s = (\<lambda>u. map_option (\<lambda>d. d\<lparr>rejectionStreak := 0\<rparr>) (s u))"

text \<open>
  A sequence of calls \<open>(now, uri, languageId, nodeType)\<close> under fixed flags: the delays
  returned, in order, and the final state.
\<close>

fun getArtificialDelays ::
  "string set \<Rightarrow> LatencyFeatureFlags \<Rightarrow> bool \<Rightarrow> (int \<times> string \<times> string \<times> string option) list
     \<Rightarrow> DelayMap \<Rightarrow> nat list \<times> DelayMap" where
  "getArtificialDelays lp flags disableDelay [] s = ([], s)"
| "getArtificialDelays lp flags disableDelay ((now, u, l, nodeType) # calls) s =
     (case getArtificialDelay lp flags disableDelay now u l nodeType s of
        (delay, s') \<Rightarrow>
          (case getArtificialDelays lp flags disableDelay calls s' of
             (delays, s'') \<Rightarrow> (delay # delays, s'')))"

text \<open>The URIs of the test file.\<close>

definition cssUri :: string where
  "cssUri = ''file://foo/bar/test.css''"

definition tsUri :: string where
  "tsUri = ''file://foo/bar/test.ts''"

definition newUri :: string where
  "newUri = ''foo/test.ts''"

section \<open>Properties of the context strategy factory\<close>

lemmas factory_simps =
  getStrategy_def emptyFactory_def graphSupported_def pushGraph_def pushLocal_def

text \<open>
  C3. For every strategy of the composition table, \<open>getStrategy\<close> on the factory built
  for that strategy returns the prescribed retriever list: nothing for \<open>none\<close>; the local
  retriever alone for \<open>jaccard-similarity\<close>, \<open>recent-copy\<close>, \<open>recent-edits\<close>,
  \<open>recent-edits-1m\<close> and \<open>recent-edits-5m\<close>; graph then local for \<open>lsp-light\<close> when the
  graph retriever supports the language and local alone otherwise; exactly one of graph
  (language supported) or the local fallback for \<open>bfg\<close>; and for \<open>bfg-mixed\<close>,
  \<open>tsc-mixed\<close> and \<open>recent-edits-mixed\<close> both retrievers when the graph retriever
  supports the language and the local retriever alone otherwise.
\<close>

theorem getStrategy_composition_table:
  fixes supports :: "ContextRetriever \<Rightarrow> string \<Rightarrow> bool"
    and bfg tsc :: "ContextRetriever option"
    and lang :: string
  defines "retr \<equiv> \<lambda>s. snd (getStrategy supports (newDefaultContextStrategyFactory s bfg tsc) lang)"
  shows "retr NoneStrategy = []
    \<and> retr JaccardSimilarity = [JaccardSimilarityRetriever]
    \<and> retr RecentCopy = [RecentCopyRetriever 60000 100]
    \<and> retr RecentEdits = [RecentEditsRetriever 60000]
    \<and> retr RecentEdits1m = [RecentEditsRetriever 60000]
    \<and> retr RecentEdits5m = [RecentEditsRetriever 300000]
    \<and> retr LspLight =
        (if supports LspLightRetriever lang
         then [LspLightRetriever, JaccardSimilarityRetriever]
         else [JaccardSimilarityRetriever])
    \<and> retr Bfg =
        (case bfg of
           None \<Rightarrow> [JaccardSimilarityRetriever]
         | Some g \<Rightarrow> if supports g lang then [g] else [JaccardSimilarityRetriever])
    \<and> retr BfgMixed =
        (case bfg of
           None \<Rightarrow> [JaccardSimilarityRetriever]
         | Some g \<Rightarrow> if supports g lang then [g, JaccardSimilarityRetriever]
                     else [JaccardSimilarityRetriever])
    \<and> retr TscMixed =
        (case tsc of
           None \<Rightarrow> [JaccardSimilarityRetriever]
         | Some g \<Rightarrow> if supports g lang then [g, JaccardSimilarityRetriever]
                     else [JaccardSimilarityRetriever])
    \<and> retr RecentEditsMixed =
        (if supports JaccardSimilarityRetriever lang
         then [RecentEditsRetriever 60000, JaccardSimilarityRetriever]
         else [RecentEditsRetriever 60000])"
  unfolding retr_def by (simp add: factory_simps split: option.split)

text \<open>
  C10. The name returned by \<open>getStrategy\<close> is the strategy the factory was configured
  with, and a factory configured with \<open>new-jaccard-similarity\<close> returns no retrievers
  for any document.
\<close>

theorem getStrategy_name_and_new_jaccard:
  "fst (getStrategy supports f lang) = contextStrategy f
   \<and> fst (getStrategy supports (newDefaultContextStrategyFactory s bfg tsc) lang) = s
   \<and> snd (getStrategy supports (newDefaultContextStrategyFactory NewJaccardSimilarity bfg tsc) lang) = []"
  by (cases s) (simp_all add: factory_simps)

section \<open>Properties of the provider registration\<close>



text \<open>
  C5. For an authenticated user for whom provider creation yields \<open>null\<close>: inside the
  agent the registration throws an error; outside the agent it registers nothing and
  does not throw.
\<close>

theorem createInlineCompletionItemProvider_null_provider:
  "(isRunningInsideAgent config \<longrightarrow>
      createInlineCompletionItemProvider config True languageIds None triggerDelaySetting
        = Inl (Error providerConfigNullMessage))
   \<and> (\<not> isRunningInsideAgent config \<longrightarrow>
      createInlineCompletionItemProvider config True languageIds None triggerDelaySetting
        = Inr (Resources []))"
  by (simp add: createInlineCompletionItemProvider_def)

theorem createInlineCompletionItemProvider_null_provider_witness:
  "isRunningInsideAgent (agentConfig True)
   \<and> (createInlineCompletionItemProvider (agentConfig True) True [''typescript''] None None
        :: error + unit Registration) = Inl (Error providerConfigNullMessage)
   \<and> \<not> isRunningInsideAgent (agentConfig False)
   \<and> (createInlineCompletionItemProvider (agentConfig False) True [''typescript''] None None
        :: error + unit Registration) = Inr (Resources [])"
  using createInlineCompletionItemProvider_null_provider
          [of "agentConfig True" "[''typescript'']" None,
           where ?'a = unit]
        createInlineCompletionItemProvider_null_provider
          [of "agentConfig False" "[''typescript'']" None,
           where ?'a = unit]
  by (simp add: agentConfig_def)

section \<open>Properties of the multi-model comparison\<close>

lemma promiseAll_Inr_iff:
  "(\<exists>vs. promiseAll ps = Inr vs) \<longleftrightarrow> (\<forall>p \<in> set ps. \<not> isl p)"
proof (induction ps rule: promiseAll.induct)
  case 1
  then show ?case by simp
next
  case (2 e ps)
  then show ?case by simp
next
  case (3 v ps)
  then show ?case by (cases "promiseAll ps") simp_all
qed

lemma promiseAll_values:
  "\<forall>p \<in> set ps. \<not> isl p \<Longrightarrow> promiseAll ps = Inr (map projr ps)"
proof (induction ps rule: promiseAll.induct)
  case 1
  then show ?case by simp
next
  case (2 e ps)
  then show ?case by simp
next
  case (3 v ps)
  then show ?case by simp
qed

lemma foldl_append_concat:
  "foldl (\<lambda>acc r. acc @ f r) start rs = start @ concat (map f rs)"
  by (induction rs arbitrary: start) simp_all

text \<open>
  C4 (counterexample). One provider's request is rejected and the other provider answers
  \<open>foo()\<close>: the second branch alone yields its result, but the aggregate is rejected
  and nothing is logged, so the failure of the first branch does affect what is obtained
  from the second. Without an active editor no pull is made and nothing is logged.
\<close>

theorem multi_model_failure_not_isolated:
  "manuallyGetCompletionItemsForProvider answeringConfig =
     Inr \<lparr>resProvider = ''anthropic'', resModel = ''claude-instant-1.2'',
          resContextStrategy = ''bfg'', completion = ''foo()''\<rparr>
   \<and> triggerMultiModelAutocompletionsForComparison True [answeringConfig] =
       Inr (Some (''Model: claude-instant-1.2'' @ [CHR 0x09] @ '' Context: bfg '' @
                  [CHR 0x0A] @ ''foo()'' @ [CHR 0x0A, CHR 0x0A]))
   \<and> triggerMultiModelAutocompletionsForComparison True [failingConfig, answeringConfig] =
       Inl (Error ''network error'')
   \<and> triggerMultiModelAutocompletionsForComparison True [answeringConfig, failingConfig] =
       Inl (Error ''network error'')
   \<and> triggerMultiModelAutocompletionsForComparison False [answeringConfig] = Inr None"
  by (simp add: triggerMultiModelAutocompletionsForComparison_def
        manuallyGetCompletionItemsForProvider_def failingConfig_def answeringConfig_def
        outputLine_def)

text \<open>
  C4 (amended). With an active editor the comparison makes one completion pull per
  configured provider and joins them all-or-none: it logs a report exactly when every
  branch succeeds, and the report then has one entry per provider, in configuration
  order, with that branch's result; when some branch fails, the whole comparison fails
  and no result of any provider is reported.
\<close>

theorem multi_model_all_or_none:
  "((\<exists>out. triggerMultiModelAutocompletionsForComparison True cs = Inr out) \<longleftrightarrow>
      (\<forall>c \<in> set cs. \<not> isl (manuallyGetCompletionItemsForProvider c)))
   \<and> ((\<forall>c \<in> set cs. \<not> isl (manuallyGetCompletionItemsForProvider c)) \<longrightarrow>
        triggerMultiModelAutocompletionsForComparison True cs =
          Inr (Some (concat (map (\<lambda>c. outputLine (projr (manuallyGetCompletionItemsForProvider c)))
                                 cs))))
   \<and> ((\<exists>c \<in> set cs. isl (manuallyGetCompletionItemsForProvider c)) \<longrightarrow>
        isl (triggerMultiModelAutocompletionsForComparison True cs))"
proof -
  let ?ps = "map manuallyGetCompletionItemsForProvider cs"
  have all: "(\<exists>vs. promiseAll ?ps = Inr vs) \<longleftrightarrow>
             (\<forall>c \<in> set cs. \<not> isl (manuallyGetCompletionItemsForProvider c))"
    using promiseAll_Inr_iff [of ?ps] by simp
  have a: "(\<exists>out. triggerMultiModelAutocompletionsForComparison True cs = Inr out) \<longleftrightarrow>
      (\<forall>c \<in> set cs. \<not> isl (manuallyGetCompletionItemsForProvider c))"
    unfolding all [symmetric] triggerMultiModelAutocompletionsForComparison_def
    by (cases "promiseAll ?ps") simp_all
  have b: "triggerMultiModelAutocompletionsForComparison True cs =
          Inr (Some (concat (map (\<lambda>c. outputLine (projr (manuallyGetCompletionItemsForProvider c)))
                                 cs)))"
    if ok: "\<forall>c \<in> set cs. \<not> isl (manuallyGetCompletionItemsForProvider c)"
  proof -
    from ok have "\<forall>p \<in> set ?ps. \<not> isl p" by simp
    then have "promiseAll ?ps = Inr (map projr ?ps)" by (rule promiseAll_values)
    then show ?thesis
      by (simp add: triggerMultiModelAutocompletionsForComparison_def
            foldl_append_concat comp_def)
  qed
  have c: "isl (triggerMultiModelAutocompletionsForComparison True cs)"
    if bad: "\<exists>c \<in> set cs. isl (manuallyGetCompletionItemsForProvider c)"
  proof (cases "triggerMultiModelAutocompletionsForComparison True cs")
    case (Inl e)
    then show ?thesis by simp
  next
    case (Inr out)
    with a bad show ?thesis by blast
  qed
  from a b c show ?thesis by blast
qed

theorem multi_model_all_or_none_witness:
  "\<not> isl (manuallyGetCompletionItemsForProvider answeringConfig)
   \<and> triggerMultiModelAutocompletionsForComparison True [answeringConfig, answeringConfig] =
       Inr (Some (''Model: claude-instant-1.2'' @ [CHR 0x09] @ '' Context: bfg '' @
                  [CHR 0x0A] @ ''foo()'' @ [CHR 0x0A, CHR 0x0A] @
                  ''Model: claude-instant-1.2'' @ [CHR 0x09] @ '' Context: bfg '' @
                  [CHR 0x0A] @ ''foo()'' @ [CHR 0x0A, CHR 0x0A]))
   \<and> isl (manuallyGetCompletionItemsForProvider failingConfig)
   \<and> isl (triggerMultiModelAutocompletionsForComparison True [failingConfig, answeringConfig])"
proof -
  have ok1: "\<not> isl (manuallyGetCompletionItemsForProvider answeringConfig)"
    by (simp add: manuallyGetCompletionItemsForProvider_def answeringConfig_def)
  have bad1: "isl (manuallyGetCompletionItemsForProvider failingConfig)"
    by (simp add: manuallyGetCompletionItemsForProvider_def failingConfig_def)
  have ok: "\<forall>c \<in> set [answeringConfig, answeringConfig].
       \<not> isl (manuallyGetCompletionItemsForProvider c)"
    by (simp add: manuallyGetCompletionItemsForProvider_def answeringConfig_def)
  have bad: "\<exists>c \<in> set [failingConfig, answeringConfig].
       isl (manuallyGetCompletionItemsForProvider c)"
    by (simp add: manuallyGetCompletionItemsForProvider_def failingConfig_def)
  from ok multi_model_all_or_none [of "[answeringConfig, answeringConfig]"]
  have "triggerMultiModelAutocompletionsForComparison True [answeringConfig, answeringConfig] =
          Inr (Some (concat (map (\<lambda>c. outputLine (projr (manuallyGetCompletionItemsForProvider c)))
                                 [answeringConfig, answeringConfig])))"
    by blast
  then have out: "triggerMultiModelAutocompletionsForComparison True
                    [answeringConfig, answeringConfig] =
       Inr (Some (''Model: claude-instant-1.2'' @ [CHR 0x09] @ '' Context: bfg '' @
                  [CHR 0x0A] @ ''foo()'' @ [CHR 0x0A, CHR 0x0A] @
                  ''Model: claude-instant-1.2'' @ [CHR 0x09] @ '' Context: bfg '' @
                  [CHR 0x0A] @ ''foo()'' @ [CHR 0x0A, CHR 0x0A]))"
    by (simp add: manuallyGetCompletionItemsForProvider_def answeringConfig_def outputLine_def)
  from bad multi_model_all_or_none [of "[failingConfig, answeringConfig]"]
  have "isl (triggerMultiModelAutocompletionsForComparison True [failingConfig, answeringConfig])"
    by blast
  with ok1 out bad1 show ?thesis by blast
qed

section \<open>Properties of the prompt context\<close>

lemma addSnippets_greedy:
  "\<exists>k \<le> length ss.
     addSnippets h limit p ss = (if k = 0 then p else p\<lparr>snippets := snippets p @ take k ss\<rparr>)
     \<and> (\<forall>j. 1 \<le> j \<and> j \<le> k \<longrightarrow>
           length (getOllamaPrompt h (p\<lparr>snippets := snippets p @ take j ss\<rparr>)) \<le> limit)
     \<and> (k < length ss \<longrightarrow>
           limit < length (getOllamaPrompt h (p\<lparr>snippets := snippets p @ take (Suc k) ss\<rparr>)))"
proof (induction ss arbitrary: p)
  case Nil
  then show ?case by simp
next
  case (Cons s ss)
  let ?q = "p\<lparr>snippets := snippets p @ [s]\<rparr>"
  show ?case
  proof (cases "limit < length (getOllamaPrompt h ?q)")
    case True
    then have "addSnippets h limit p (s # ss) = p" by simp
    with True show ?thesis by (intro exI [of _ 0]) simp
  next
    case False
    then have step: "addSnippets h limit p (s # ss) = addSnippets h limit ?q ss"
      by (simp add: Let_def)
    from Cons.IH [of ?q] obtain k where k: "k \<le> length ss"
      and res: "addSnippets h limit ?q ss =
                  (if k = 0 then ?q else ?q\<lparr>snippets := snippets ?q @ take k ss\<rparr>)"
      and fit: "\<forall>j. 1 \<le> j \<and> j \<le> k \<longrightarrow>
                  length (getOllamaPrompt h (?q\<lparr>snippets := snippets ?q @ take j ss\<rparr>)) \<le> limit"
      and stop: "k < length ss \<longrightarrow>
                  limit < length (getOllamaPrompt h (?q\<lparr>snippets := snippets ?q @ take (Suc k) ss\<rparr>))"
      by blast
    have a: "addSnippets h limit p (s # ss) = p\<lparr>snippets := snippets p @ take (Suc k) (s # ss)\<rparr>"
      using step res by simp
    have b: "length (getOllamaPrompt h (p\<lparr>snippets := snippets p @ take j (s # ss)\<rparr>)) \<le> limit"
      if j: "1 \<le> j \<and> j \<le> Suc k" for j
    proof (cases j)
      case 0
      with j show ?thesis by simp
    next
      case (Suc i)
      show ?thesis
      proof (cases i)
        case 0
        with Suc False show ?thesis by simp
      next
        case (Suc i')
        with \<open>j = Suc i\<close> j fit have
          "length (getOllamaPrompt h (?q\<lparr>snippets := snippets ?q @ take i ss\<rparr>)) \<le> limit"
          by simp
        with \<open>j = Suc i\<close> show ?thesis by simp
      qed
    qed
    have c: "Suc k < length (s # ss) \<longrightarrow>
        limit < length (getOllamaPrompt h (p\<lparr>snippets := snippets p @ take (Suc (Suc k)) (s # ss)\<rparr>))"
      using stop by simp
    from k a b c show ?thesis
      by (intro exI [of _ "Suc k"]) simp
  qed
qed

text \<open>
  C6 (counterexample). With \<open>OLLAMA_CONTEXT_SNIPPETS\<close> set, a document prefix of 2000
  characters and one snippet: no snippet is kept, and the assembled prompt is longer than
  the budget of 1234 characters. With the variable unset, a snippet is not added although
  the prompt with it would fit the budget.
\<close>

theorem createPromptContext_exceeds_budget:
  "snippets (createPromptContext plainHelpers (Some ''1'') longPrefixOptions [smallSnippet] False) = []
   \<and> maxPromptChars <
       length (getOllamaPrompt plainHelpers
         (createPromptContext plainHelpers (Some ''1'') longPrefixOptions [smallSnippet] False))
   \<and> snippets (createPromptContext snippetHelpers None shortPrefixOptions [smallSnippet] False) = []
   \<and> length (getOllamaPrompt snippetHelpers
         ((createPromptContext snippetHelpers None shortPrefixOptions [smallSnippet] False)
            \<lparr>snippets := [smallSnippet]\<rparr>)) \<le> maxPromptChars"
  by (simp add: createPromptContext_def initialPrompt_def plainHelpers_def snippetHelpers_def
        longPrefixOptions_def shortPrefixOptions_def smallSnippet_def maxPromptChars_def
        commentStartFor_def fileNameLine_def Let_def)

text \<open>
  C6 (amended). When \<open>OLLAMA_CONTEXT_SNIPPETS\<close> is set, the snippets are added one at a
  time in the given order, an addition is kept only if the prompt with it is at most 1234
  characters long, and the process stops at the first snippet whose addition would
  overflow: the kept snippets are the first \<open>k\<close> given ones, each of these additions fits
  the budget, and the next one, if any, does not. Consequently the assembled prompt is
  within the budget whenever at least one snippet is kept.
\<close>

theorem createPromptContext_snippet_budget:
  assumes env: "env = Some v" "v \<noteq> []"
  shows "\<exists>k \<le> length snips.
     createPromptContext h env options snips infill =
       (initialPrompt h options snips infill)\<lparr>snippets := take k snips\<rparr>
     \<and> (\<forall>j. 1 \<le> j \<and> j \<le> k \<longrightarrow>
           length (getOllamaPrompt h
             ((initialPrompt h options snips infill)\<lparr>snippets := take j snips\<rparr>)) \<le> 1234)
     \<and> (k < length snips \<longrightarrow>
           1234 < length (getOllamaPrompt h
             ((initialPrompt h options snips infill)\<lparr>snippets := take (Suc k) snips\<rparr>)))
     \<and> (snippets (createPromptContext h env options snips infill) \<noteq> [] \<longrightarrow>
           length (getOllamaPrompt h (createPromptContext h env options snips infill)) \<le> 1234)"
proof -
  let ?p = "initialPrompt h options snips infill"
  have empty: "snippets ?p = []"
    by (simp add: initialPrompt_def Let_def)
  have run: "createPromptContext h env options snips infill = addSnippets h 1234 ?p snips"
    using env by (simp add: createPromptContext_def maxPromptChars_def Let_def)
  from addSnippets_greedy [of snips h 1234 ?p] obtain k where k: "k \<le> length snips"
    and res: "addSnippets h 1234 ?p snips =
                (if k = 0 then ?p else ?p\<lparr>snippets := snippets ?p @ take k snips\<rparr>)"
    and fit: "\<forall>j. 1 \<le> j \<and> j \<le> k \<longrightarrow>
                length (getOllamaPrompt h (?p\<lparr>snippets := snippets ?p @ take j snips\<rparr>)) \<le> 1234"
    and stop: "k < length snips \<longrightarrow>
                1234 < length (getOllamaPrompt h (?p\<lparr>snippets := snippets ?p @ take (Suc k) snips\<rparr>))"
    by blast
  have a: "createPromptContext h env options snips infill = ?p\<lparr>snippets := take k snips\<rparr>"
    using run res empty by (cases "k = 0") simp_all
  have d: "length (getOllamaPrompt h (createPromptContext h env options snips infill)) \<le> 1234"
    if "snippets (createPromptContext h env options snips infill) \<noteq> []"
  proof -
    from that a have "k \<noteq> 0" by auto
    with fit empty have "length (getOllamaPrompt h (?p\<lparr>snippets := take k snips\<rparr>)) \<le> 1234"
      by simp
    with a show ?thesis by simp
  qed
  from k a fit stop d empty show ?thesis
    by (intro exI [of _ k]) simp
qed

theorem createPromptContext_snippet_budget_witness:
  "Some ''1'' = Some ''1'' \<and> ''1'' \<noteq> []
   \<and> snippets (createPromptContext snippetHelpers (Some ''1'') shortPrefixOptions
                  [smallSnippet, largeSnippet] False) = [smallSnippet]
   \<and> length (getOllamaPrompt snippetHelpers
        (createPromptContext snippetHelpers (Some ''1'') shortPrefixOptions
           [smallSnippet, largeSnippet] False)) \<le> 1234"
proof -
  have kept: "snippets (createPromptContext snippetHelpers (Some ''1'') shortPrefixOptions
                  [smallSnippet, largeSnippet] False) = [smallSnippet]"
    by (simp add: createPromptContext_def initialPrompt_def snippetHelpers_def plainHelpers_def
          shortPrefixOptions_def smallSnippet_def largeSnippet_def maxPromptChars_def
          commentStartFor_def fileNameLine_def Let_def)
  from createPromptContext_snippet_budget
         [of "Some ''1''" "''1''" "[smallSnippet, largeSnippet]" snippetHelpers
             shortPrefixOptions False]
  have "snippets (createPromptContext snippetHelpers (Some ''1'') shortPrefixOptions
                    [smallSnippet, largeSnippet] False) \<noteq> [] \<longrightarrow>
        length (getOllamaPrompt snippetHelpers
          (createPromptContext snippetHelpers (Some ''1'') shortPrefixOptions
             [smallSnippet, largeSnippet] False)) \<le> 1234"
    by blast
  with kept show ?thesis by simp
qed

section \<open>Properties of the artificial delay\<close>

lemmas delay_simps =
  getArtificialDelay_def rejectionCount_def userLatency_def baseline_def Let_def

text \<open>
  The rejection counter counts consecutive calls: after a call for a URI with the delay
  not disabled, a later call for the same URI finds the counter one higher, unless 5
  minutes have passed in between.
\<close>

lemma rejectionCount_after_call:
  "rejectionCount (snd (getArtificialDelay lp flags False now u l nodeType s)) now' u =
     (if 5 * 60 * 1000 \<le> now' - now then 0 else Suc (rejectionCount s now u))"
  by (simp add: delay_simps)

lemma getArtificialDelay_enabled:
  "getArtificialDelay lp flags False now u l nodeType s =
     (min (baseline lp l nodeType + userLatency flags (Suc (rejectionCount s now u))) 1400,
      s(u \<mapsto> \<lparr>rejectionStreak = Suc (rejectionCount s now u), lastCallAt = now\<rparr>))"
  by (simp add: getArtificialDelay_def Let_def)

lemma rejectionCount_same_instant:
  "rejectionCount (s(u \<mapsto> \<lparr>rejectionStreak = k, lastCallAt = now\<rparr>)) now u = k"
  by (simp add: rejectionCount_def)

text \<open>
  C1. With the user-latency flag enabled and the disable-delay flag off, a call that
  finds the URI's consecutive rejection count at \<open>r\<close> returns the baseline plus a user
  latency of 0 ms for \<open>r < 5\<close> and of \<open>50 * (r - 4)\<close> ms for \<open>r \<ge> 5\<close>, clamped to
  1400 ms, so the result never exceeds 1400 ms.
\<close>

theorem getArtificialDelay_user_latency:
  assumes "user flags" and "\<not> disableDelay" and "rejectionCount s now u = r"
  shows "fst (getArtificialDelay lp flags disableDelay now u l nodeType s) =
           min (baseline lp l nodeType + (if r < 5 then 0 else 50 * (r - 4))) 1400
         \<and> fst (getArtificialDelay lp flags disableDelay now u l nodeType s) \<le> 1400"
  using assms by (simp add: getArtificialDelay_def userLatency_def Let_def)

theorem getArtificialDelay_user_latency_witness:
  "user \<lparr>user = True\<rparr> \<and> \<not> False
   \<and> rejectionCount [''file://foo/bar/test.ts'' \<mapsto> \<lparr>rejectionStreak = 7, lastCallAt = 0\<rparr>]
        1000 ''file://foo/bar/test.ts'' = 7
   \<and> fst (getArtificialDelay {''css''} \<lparr>user = True\<rparr> False 1000 ''file://foo/bar/test.ts''
             ''typescript'' None
             [''file://foo/bar/test.ts'' \<mapsto> \<lparr>rejectionStreak = 7, lastCallAt = 0\<rparr>]) = 150"
proof -
  have r: "rejectionCount [''file://foo/bar/test.ts'' \<mapsto> \<lparr>rejectionStreak = 7, lastCallAt = 0\<rparr>]
        1000 ''file://foo/bar/test.ts'' = 7"
    by (simp add: rejectionCount_def)
  have "fst (getArtificialDelay {''css''} \<lparr>user = True\<rparr> False 1000 ''file://foo/bar/test.ts''
             ''typescript'' None
             [''file://foo/bar/test.ts'' \<mapsto> \<lparr>rejectionStreak = 7, lastCallAt = 0\<rparr>]) =
        min (baseline {''css''} ''typescript'' None + (if (7::nat) < 5 then 0 else 50 * (7 - 4))) 1400"
    using getArtificialDelay_user_latency [of "\<lparr>user = True\<rparr>" False _ 1000 _ 7, OF _ _ r]
    by simp
  then show ?thesis using r by (simp add: baseline_def)
qed

text \<open>
  A run of \<open>n\<close> calls for one URI at one instant: the \<open>i\<close>-th call (from 0) finds
  the counter \<open>i\<close> higher than the first one did.
\<close>

lemma repeated_calls:
  "getArtificialDelays lp flags False (replicate n (now, u, l, nodeType)) s =
     (map (\<lambda>i. min (baseline lp l nodeType + userLatency flags (Suc (rejectionCount s now u + i))) 1400)
          [0..<n],
      if n = 0 then s
      else s(u \<mapsto> \<lparr>rejectionStreak = rejectionCount s now u + n, lastCallAt = now\<rparr>))"
proof (induction n arbitrary: s)
  case 0
  then show ?case by simp
next
  case (Suc n)
  let ?s' = "s(u \<mapsto> \<lparr>rejectionStreak = Suc (rejectionCount s now u), lastCallAt = now\<rparr>)"
  have r: "rejectionCount ?s' now u = Suc (rejectionCount s now u)"
    by (rule rejectionCount_same_instant)
  have "getArtificialDelays lp flags False (replicate (Suc n) (now, u, l, nodeType)) s =
        (case getArtificialDelays lp flags False (replicate n (now, u, l, nodeType)) ?s' of
           (delays, s'') \<Rightarrow>
             (min (baseline lp l nodeType + userLatency flags (Suc (rejectionCount s now u))) 1400
                # delays, s''))"
    by (simp add: getArtificialDelay_enabled)
  also have "\<dots> =
        (min (baseline lp l nodeType + userLatency flags (Suc (rejectionCount s now u))) 1400
           # map (\<lambda>i. min (baseline lp l nodeType +
                            userLatency flags (Suc (Suc (rejectionCount s now u) + i))) 1400) [0..<n],
         if n = 0 then ?s'
         else ?s'(u \<mapsto> \<lparr>rejectionStreak = Suc (rejectionCount s now u) + n, lastCallAt = now\<rparr>))"
    by (simp only: Suc.IH [of ?s'] r prod.case)
  also have "\<dots> =
     (map (\<lambda>i. min (baseline lp l nodeType + userLatency flags (Suc (rejectionCount s now u + i))) 1400)
          [0..<Suc n],
      if Suc n = 0 then s
      else s(u \<mapsto> \<lparr>rejectionStreak = rejectionCount s now u + Suc n, lastCallAt = now\<rparr>))"
    by (simp add: upt_rec [of 0 "Suc n"] map_Suc_upt [symmetric] del: upt_Suc)
  finally show ?case .
qed

lemma upt13: "[0..<13] = [0,1,2,3,4,5,6,7,8,9,10,11,12::nat]"
  by (simp add: upt_rec)

lemma upt9: "[0..<9] = [0,1,2,3,4,5,6,7,8::nat]"
  by (simp add: upt_rec)

text \<open>
  C2 (counterexample). For \<open>css\<close> with the user flag on, the ninth call of a fresh
  sequence on one URI returns 1200, not 1400.
\<close>

theorem css_ninth_call_is_1200:
  "fst (getArtificialDelays {''css''} \<lparr>user = True\<rparr> False
          (replicate 9 (0, cssUri, ''css'', None)) Map.empty) ! 8 = 1200
   \<and> fst (getArtificialDelays {''css''} \<lparr>user = True\<rparr> False
          (replicate 9 (0, cssUri, ''css'', None)) Map.empty) ! 8 \<noteq> 1400"
  by (simp add: repeated_calls upt9 rejectionCount_def userLatency_def baseline_def)

text \<open>
  C2 (amended). For \<open>css\<close>, a low-performance language, with the user flag on, a fresh
  sequence of calls on one URI returns 1000 for each of the first five calls, 1050 for
  the sixth, 1200 for the ninth and 1400 for the thirteenth, rising by 50 per call in
  between; after \<open>resetArtificialDelay()\<close> the next call returns 1000 again.
\<close>

theorem css_rejection_sequence:
  assumes "''css'' \<in> lp" and "s u = None"
  shows "fst (getArtificialDelays lp \<lparr>user = True\<rparr> False
               (replicate 13 (now, u, ''css'', None)) s) =
           [1000, 1000, 1000, 1000, 1000, 1050, 1100, 1150, 1200, 1250, 1300, 1350, 1400]
         \<and> fst (getArtificialDelay lp \<lparr>user = True\<rparr> False now u ''css'' None
                 (resetArtificialDelay
                    (snd (getArtificialDelays lp \<lparr>user = True\<rparr> False
                            (replicate 13 (now, u, ''css'', None)) s)))) = 1000"
proof -
  from assms(2) have r: "rejectionCount s now u = 0"
    by (simp add: rejectionCount_def)
  have seq: "fst (getArtificialDelays lp \<lparr>user = True\<rparr> False
               (replicate 13 (now, u, ''css'', None)) s) =
           [1000, 1000, 1000, 1000, 1000, 1050, 1100, 1150, 1200, 1250, 1300, 1350, 1400]"
    using assms(1) by (simp add: repeated_calls r upt13 userLatency_def baseline_def)
  have st: "snd (getArtificialDelays lp \<lparr>user = True\<rparr> False
               (replicate 13 (now, u, ''css'', None)) s) =
            s(u \<mapsto> \<lparr>rejectionStreak = 13, lastCallAt = now\<rparr>)"
    by (simp add: repeated_calls r)
  have "fst (getArtificialDelay lp \<lparr>user = True\<rparr> False now u ''css'' None
               (resetArtificialDelay (s(u \<mapsto> \<lparr>rejectionStreak = 13, lastCallAt = now\<rparr>)))) = 1000"
    using assms(1)
    by (simp add: getArtificialDelay_enabled rejectionCount_def resetArtificialDelay_def
          userLatency_def baseline_def)
  with seq st show ?thesis by simp
qed

theorem css_rejection_sequence_witness:
  "''css'' \<in> {''css''} \<and> (Map.empty :: DelayMap) cssUri = None
   \<and> fst (getArtificialDelays {''css''} \<lparr>user = True\<rparr> False
               (replicate 13 (0, cssUri, ''css'', None)) Map.empty) =
           [1000, 1000, 1000, 1000, 1000, 1050, 1100, 1150, 1200, 1250, 1300, 1350, 1400]"
  using css_rejection_sequence [of "{''css''}" Map.empty cssUri 0] by simp

lemma baseline_clamped: "min (baseline lp l nodeType) 1400 = baseline lp l nodeType"
  by (simp add: baseline_def)

text \<open>
  The idle scenario of the test file: thirteen rejected calls, a call three minutes later
  that still returns the maximum, and a call five minutes after that one, which returns
  the baseline again.
\<close>

lemma test_file_idle_scenario:
  fixes s13 s14 :: DelayMap
  defines "s13 \<equiv> snd (getArtificialDelays {''css''} \<lparr>user = True\<rparr> False
                          (replicate 13 (0, cssUri, ''css'', None)) Map.empty)"
  defines "s14 \<equiv> snd (getArtificialDelay {''css''} \<lparr>user = True\<rparr> False (3 * 60 * 1000)
                          cssUri ''css'' None s13)"
  shows "fst (getArtificialDelay {''css''} \<lparr>user = True\<rparr> False (3 * 60 * 1000)
                cssUri ''css'' None s13) = 1400
       \<and> fst (getArtificialDelay {''css''} \<lparr>user = True\<rparr> False (8 * 60 * 1000)
                cssUri ''css'' None s14) = 1000"
  unfolding s13_def s14_def
  by (simp add: repeated_calls getArtificialDelay_enabled rejectionCount_def userLatency_def
        baseline_def)

lemma getArtificialDelays_append:
  "getArtificialDelays lp flags disableDelay (xs @ ys) s =
     (case getArtificialDelays lp flags disableDelay xs s of
        (ds, s') \<Rightarrow>
          (case getArtificialDelays lp flags disableDelay ys s' of
             (es, s'') \<Rightarrow> (ds @ es, s'')))"
  by (induction xs arbitrary: s) (auto split: prod.splits)

lemma rejectionCount_empty: "rejectionCount Map.empty now u = 0"
  by (simp add: rejectionCount_def)

lemma rejectionCount_upd:
  "rejectionCount (s(u \<mapsto> \<lparr>rejectionStreak = k, lastCallAt = t\<rparr>)) now u' =
     (if u' = u then (if 5 * 60 * 1000 \<le> now - t then 0 else k) else rejectionCount s now u')"
  by (simp add: rejectionCount_def)

lemmas run_simps =
  getArtificialDelays_append repeated_calls getArtificialDelay_enabled rejectionCount_empty
  rejectionCount_upd userLatency_def baseline_def tsUri_def newUri_def cssUri_def upt_rec

text \<open>
  Three more scenarios of the test file: node types on a \<open>typescript\<close> document; a long
  run of rejections followed by a switch to another URI; and the user flag off.
\<close>

lemma test_file_node_type_scenario:
  "fst (getArtificialDelays {''css''} \<lparr>user = True\<rparr> False
     ([(0, tsUri, ''typescript'', Some ''arguments''),
       (0, tsUri, ''typescript'', Some ''function.body''),
       (0, tsUri, ''typescript'', Some ''comment'')]
      @ replicate 6 (0, tsUri, ''typescript'', None)) Map.empty)
   = [0, 0, 1000, 0, 0, 50, 100, 150, 200]"
  by (simp add: run_simps)

lemma test_file_switch_uri_scenario:
  "fst (getArtificialDelays {''css''} \<lparr>user = True\<rparr> False
     (replicate 6 (0, tsUri, ''typescript'', None)
      @ [(0, tsUri, ''typescript'', Some ''comment'')]
      @ replicate 27 (0, tsUri, ''typescript'', None)
      @ replicate 2 (0, newUri, ''typescript'', None)
      @ [(0, newUri, ''typescript'', Some ''comment'')]
      @ replicate 2 (0, newUri, ''typescript'', None)
      @ [(3 * 60 * 1000, newUri, ''typescript'', None)]) Map.empty)
   = [0, 0, 0, 0, 0, 50, 1100,
      150, 200, 250, 300, 350, 400, 450, 500, 550, 600, 650, 700, 750, 800, 850, 900, 950,
      1000, 1050, 1100, 1150, 1200, 1250, 1300, 1350, 1400, 1400,
      0, 0, 1000, 0, 0, 50]"
  by (simp add: run_simps)

lemma test_file_user_flag_off_scenario:
  "fst (getArtificialDelays {''css''} \<lparr>user = False\<rparr> False
     (replicate 8 (0, cssUri, ''css'', None) @ [(0, ''foo/bar/test.go'', ''go'', None)])
     Map.empty)
   = [1000, 1000, 1000, 1000, 1000, 1000, 1000, 1000, 0]"
  by (simp add: run_simps)

text \<open>
  After \<open>r\<close> consecutive calls for a URI that had no state, the next call finds the
  rejection count at \<open>r\<close>.
\<close>

lemma consecutive_calls_delay:
  assumes "s u = None"
  shows "fst (getArtificialDelays lp flags False (replicate (Suc r) (now, u, l, nodeType)) s) ! r =
           min (baseline lp l nodeType + userLatency flags (Suc r)) 1400"
proof -
  from assms have "rejectionCount s now u = 0"
    by (simp add: rejectionCount_def)
  then show ?thesis
    by (simp add: repeated_calls nth_append del: replicate.simps upt_Suc)
qed

text \<open>
  C7 (counterexample). With the disable-delay flag set, a call for a \<open>css\<close> document
  more than five minutes after the last call for its URI returns 0, while the baseline
  for \<open>css\<close> is 1000.
\<close>

theorem idle_call_with_delay_disabled:
  "fst (getArtificialDelay {''css''} \<lparr>user = True\<rparr> True (5 * 60 * 1000 + 1) cssUri ''css'' None
          [cssUri \<mapsto> \<lparr>rejectionStreak = 13, lastCallAt = 0\<rparr>]) = 0
   \<and> baseline {''css''} ''css'' None = 1000"
  by (simp add: getArtificialDelay_def baseline_def)

text \<open>
  C7 (amended). With the disable-delay flag off: if more than 5 minutes have passed
  since the last call for a URI, the next call for that URI returns exactly the baseline
  for its language and node type, whatever the URI's rejection streak was; after an idle
  gap of 3 minutes the streak is not reset, and the call continues it.
\<close>

theorem idle_reset_after_five_minutes:
  assumes "\<not> disableDelay" and "s u = Some d"
  shows "(5 * 60 * 1000 < now - lastCallAt d \<longrightarrow>
            fst (getArtificialDelay lp flags disableDelay now u l nodeType s) =
              baseline lp l nodeType)
       \<and> (now - lastCallAt d = 3 * 60 * 1000 \<longrightarrow>
            rejectionCount s now u = rejectionStreak d
            \<and> fst (getArtificialDelay lp flags disableDelay now u l nodeType s) =
                min (baseline lp l nodeType + userLatency flags (Suc (rejectionStreak d))) 1400
            \<and> snd (getArtificialDelay lp flags disableDelay now u l nodeType s) u =
                Some \<lparr>rejectionStreak = Suc (rejectionStreak d), lastCallAt = now\<rparr>)"
  using assms
  by (simp add: getArtificialDelay_def rejectionCount_def userLatency_def Let_def
        baseline_clamped)

theorem idle_reset_after_five_minutes_witness:
  "\<not> False
   \<and> [cssUri \<mapsto> \<lparr>rejectionStreak = 13, lastCallAt = 0\<rparr>] cssUri
        = Some \<lparr>rejectionStreak = 13, lastCallAt = 0\<rparr>
   \<and> (5 * 60 * 1000 :: int) < 300001 - lastCallAt \<lparr>rejectionStreak = 13, lastCallAt = 0\<rparr>
   \<and> fst (getArtificialDelay {''css''} \<lparr>user = True\<rparr> False 300001 cssUri ''css'' None
            [cssUri \<mapsto> \<lparr>rejectionStreak = 13, lastCallAt = 0\<rparr>]) = 1000
   \<and> (180000 :: int) - lastCallAt \<lparr>rejectionStreak = 13, lastCallAt = 0\<rparr> = 3 * 60 * 1000
   \<and> fst (getArtificialDelay {''css''} \<lparr>user = True\<rparr> False 180000 cssUri ''css'' None
            [cssUri \<mapsto> \<lparr>rejectionStreak = 13, lastCallAt = 0\<rparr>]) = 1400"
  using idle_reset_after_five_minutes
          [of False "[cssUri \<mapsto> \<lparr>rejectionStreak = 13, lastCallAt = 0\<rparr>]" cssUri
              "\<lparr>rejectionStreak = 13, lastCallAt = 0\<rparr>" 300001 "{''css''}" "\<lparr>user = True\<rparr>"
              "''css''" None]
        idle_reset_after_five_minutes
          [of False "[cssUri \<mapsto> \<lparr>rejectionStreak = 13, lastCallAt = 0\<rparr>]" cssUri
              "\<lparr>rejectionStreak = 13, lastCallAt = 0\<rparr>" 180000 "{''css''}" "\<lparr>user = True\<rparr>"
              "''css''" None]
  by (simp add: baseline_def userLatency_def)

text \<open>
  C8 (counterexample). With the disable-delay flag set, the first call for a URI not seen
  before returns 0 for a \<open>css\<close> document, not the baseline of 1000.
\<close>

theorem first_call_with_delay_disabled:
  "(Map.empty :: DelayMap) cssUri = None
   \<and> fst (getArtificialDelay {''css''} \<lparr>user = True\<rparr> True 0 cssUri ''css'' None Map.empty) = 0
   \<and> baseline {''css''} ''css'' None = 1000"
  by (simp add: getArtificialDelay_def baseline_def)

text \<open>
  C8 (amended). Rejection streaks are tracked per URI independently: the first call for
  a URI not seen before uses a rejection streak of 0, so with the disable-delay flag off
  it returns the baseline only; and a call for one URI, whatever the flags, leaves the
  state and the rejection streak of every other URI as they were.
\<close>

theorem rejection_streaks_per_uri:
  "(s u = None \<longrightarrow> rejectionCount s now u = 0)
   \<and> (s u = None \<and> \<not> disableDelay \<longrightarrow>
        fst (getArtificialDelay lp flags disableDelay now u l nodeType s) = baseline lp l nodeType)
   \<and> (u' \<noteq> u \<longrightarrow>
        snd (getArtificialDelay lp flags disableDelay now u l nodeType s) u' = s u'
        \<and> rejectionCount (snd (getArtificialDelay lp flags disableDelay now u l nodeType s)) now' u'
            = rejectionCount s now' u')"
  by (simp add: getArtificialDelay_def rejectionCount_def userLatency_def Let_def
        baseline_clamped)

theorem rejection_streaks_per_uri_witness:
  "[''file://foo/bar/test.ts'' \<mapsto> \<lparr>rejectionStreak = 32, lastCallAt = 0\<rparr>] ''foo/test.ts'' = None
   \<and> \<not> False
   \<and> fst (getArtificialDelay {''css''} \<lparr>user = True\<rparr> False 0 ''foo/test.ts'' ''typescript'' None
            [''file://foo/bar/test.ts'' \<mapsto> \<lparr>rejectionStreak = 32, lastCallAt = 0\<rparr>]) = 0
   \<and> ''file://foo/bar/test.ts'' \<noteq> ''foo/test.ts''
   \<and> snd (getArtificialDelay {''css''} \<lparr>user = True\<rparr> False 0 ''foo/test.ts'' ''typescript'' None
            [''file://foo/bar/test.ts'' \<mapsto> \<lparr>rejectionStreak = 32, lastCallAt = 0\<rparr>])
          ''file://foo/bar/test.ts'' = Some \<lparr>rejectionStreak = 32, lastCallAt = 0\<rparr>"
  using rejection_streaks_per_uri
          [of "[''file://foo/bar/test.ts'' \<mapsto> \<lparr>rejectionStreak = 32, lastCallAt = 0\<rparr>]"
              "''foo/test.ts''" 0 False "{''css''}" "\<lparr>user = True\<rparr>" "''typescript''" None
              "''file://foo/bar/test.ts''"]
  by (simp add: baseline_def)

end
